theory Spec2Isabelle
  imports Complex_Main "HOL-Library.AList"
begin

section \<open>JavaScript values used by the pipeline\<close>

text \<open>
  A JavaScript number field of a JSON-shaped record is modelled by \<open>jsnum\<close>:
  \<open>Undefined\<close> is an absent field, \<open>NaN\<close> is the result of arithmetic on an absent
  field, and \<open>Num r\<close> is a finite number. Finite numbers are exact rationals: the
  rounding of IEEE doubles is not modelled.
  Strings are byte lists holding the UTF-8 encoding of the source's literals.
\<close>

datatype jsnum = Undefined | NaN | Num rat

fun truthy :: "jsnum \<Rightarrow> bool" where
  "truthy (Num r) = (r \<noteq> 0)"
| "truthy _ = False"

definition js_or :: "jsnum \<Rightarrow> jsnum \<Rightarrow> jsnum" where
  "js_or a b = (if truthy a then a else b)"

fun js_mul :: "jsnum \<Rightarrow> jsnum \<Rightarrow> jsnum" where
  "js_mul (Num a) (Num b) = Num (a * b)"
| "js_mul _ _ = NaN"

fun js_add :: "jsnum \<Rightarrow> jsnum \<Rightarrow> jsnum" where
  "js_add (Num a) (Num b) = Num (a + b)"
| "js_add _ _ = NaN"

fun js_sub :: "jsnum \<Rightarrow> jsnum \<Rightarrow> jsnum" where
  "js_sub (Num a) (Num b) = Num (a - b)"
| "js_sub _ _ = NaN"

fun js_abs :: "jsnum \<Rightarrow> jsnum" where
  "js_abs (Num a) = Num \<bar>a\<bar>"
| "js_abs _ = NaN"

fun js_gt :: "jsnum \<Rightarrow> jsnum \<Rightarrow> bool" where
  "js_gt (Num a) (Num b) = (b < a)"
| "js_gt _ _ = False"

text \<open>\<open>s || d\<close> on an optional string: absent and empty strings are falsy.\<close>

definition str_or :: "string option \<Rightarrow> string \<Rightarrow> string" where
  "str_or s d = (case s of None \<Rightarrow> d | Some v \<Rightarrow> if v = [] then d else v)"

datatype error = Error string | TypeError | SyntaxError

section \<open>The data contract: TransactionData\<close>

text \<open>
  The interface \<open>TransactionData\<close>. The source calls both the line total of an item and
  the grand total of the transaction \<open>total\<close>; here they are \<open>itemTotal\<close> and
  \<open>grandTotal\<close>.
\<close>

record item =
  name :: string
  quantity :: jsnum
  unitPrice :: jsnum
  itemTotal :: jsnum

record customer_info =
  customerName :: "string option"
  contact :: "string option"

record metadata_info =
  confidence :: jsnum
  extractedEntities :: "string list"

record TransactionData =
  items :: "item list"
  customer :: "customer_info option"
  grandTotal :: jsnum
  currency :: string
  paymentTerms :: "string option"
  dueDate :: "string option"
  businessType :: "string option"
  language :: string
  metadata :: "metadata_info option"

definition supportedLanguages :: "string list" where
  "supportedLanguages = [''id'', ''th'', ''vi'', ''tl'', ''en'']"

section \<open>AIService: the deterministic mock records\<close>

definition mock_id :: TransactionData where
  "mock_id = \<lparr>
     items = [
       \<lparr>name = ''Ganti Oli'', quantity = Num 1, unitPrice = Num 150000, itemTotal = Num 150000\<rparr>,
       \<lparr>name = ''Kampas Rem'', quantity = Num 1, unitPrice = Num 200000, itemTotal = Num 200000\<rparr>],
     customer = Some \<lparr>customerName = Some ''Pak Budi'', contact = None\<rparr>,
     grandTotal = Num 350000,
     currency = ''IDR'',
     paymentTerms = Some ''later'',
     dueDate = Some ''next week'',
     businessType = Some ''repair shop'',
     language = ''id'',
     metadata = Some \<lparr>confidence = Num (92 / 100),
       extractedEntities = [''customer'', ''services'', ''amount'', ''payment_terms'']\<rparr>\<rparr>"

text \<open>The two Thai item names, U+0E1C U+0E31 U+0E14 U+0E44 U+0E17 U+0E22 (phat thai) and
  U+0E2A U+0E49 U+0E21 U+0E15 U+0E33 (som tam), in UTF-8.\<close>

definition phat_thai :: string where
  "phat_thai = [CHR 0xE0, CHR 0xB8, CHR 0x9C, CHR 0xE0, CHR 0xB8, CHR 0xB1, CHR 0xE0, CHR 0xB8, CHR 0x94,
     CHR 0xE0, CHR 0xB9, CHR 0x84, CHR 0xE0, CHR 0xB8, CHR 0x97, CHR 0xE0, CHR 0xB8, CHR 0xA2]"

definition som_tam :: string where
  "som_tam = [CHR 0xE0, CHR 0xB8, CHR 0xAA, CHR 0xE0, CHR 0xB9, CHR 0x89, CHR 0xE0, CHR 0xB8, CHR 0xA1,
     CHR 0xE0, CHR 0xB8, CHR 0x95, CHR 0xE0, CHR 0xB8, CHR 0xB3]"

definition mock_th :: TransactionData where
  "mock_th = \<lparr>
     items = [
       \<lparr>name = phat_thai, quantity = Num 3, unitPrice = Num 60, itemTotal = Num 180\<rparr>,
       \<lparr>name = som_tam, quantity = Num 2, unitPrice = Num 35, itemTotal = Num 70\<rparr>],
     customer = None,
     grandTotal = Num 250,
     currency = ''THB'',
     paymentTerms = Some ''immediate'',
     dueDate = None,
     businessType = Some ''street food'',
     language = ''th'',
     metadata = Some \<lparr>confidence = Num (95 / 100),
       extractedEntities = [''food_items'', ''quantity'', ''amount'']\<rparr>\<rparr>"

definition mock_en :: TransactionData where
  "mock_en = \<lparr>
     items = [
       \<lparr>name = ''Shirts'', quantity = Num 3, unitPrice = Num 25, itemTotal = Num 75\<rparr>,
       \<lparr>name = ''Pants'', quantity = Num 2, unitPrice = Num (75 / 2), itemTotal = Num 75\<rparr>],
     customer = None,
     grandTotal = Num 150,
     currency = ''USD'',
     paymentTerms = Some ''later'',
     dueDate = Some ''next week'',
     businessType = Some ''retail'',
     language = ''en'',
     metadata = Some \<lparr>confidence = Num (90 / 100),
       extractedEntities = [''items'', ''quantity'', ''amount'', ''payment_terms'']\<rparr>\<rparr>"

text \<open>
  \<open>mockData\<close> is the object literal of \<open>getMockTransactionData\<close>, by its own keys;
  \<open>mockData[language] || mockData['en']\<close> is the lookup with the \<open>'en'\<close> entry as default.
  (Keys inherited from \<open>Object.prototype\<close> are not modelled; none of them is a supported
  language code.)
\<close>

definition mockData :: "(string \<times> TransactionData) list" where
  "mockData = [(''id'', mock_id), (''th'', mock_th), (''en'', mock_en)]"

definition getMockTransactionData :: "string \<Rightarrow> TransactionData" where
  "getMockTransactionData lang =
     (case map_of mockData lang of Some d \<Rightarrow> d | None \<Rightarrow> mock_en)"

definition currencyMap :: "(string \<times> string) list" where
  "currencyMap = [(''id'', ''IDR''), (''th'', ''THB''), (''vi'', ''VND''), (''tl'', ''PHP''), (''en'', ''USD'')]"

definition getCurrencyForLanguage :: "string \<Rightarrow> string" where
  "getCurrencyForLanguage lang =
     (case map_of currencyMap lang of Some c \<Rightarrow> c | None \<Rightarrow> ''USD'')"

section \<open>AIService: the validator\<close>

text \<open>
  What \<open>JSON.parse\<close> hands to the validator. The value is cast to \<open>TransactionData\<close>
  without a check, so every field may be absent; \<open>items\<close> may also be a truthy value
  that is not an array, and the parsed value may be \<open>null\<close>. The \<open>language\<close> of the
  parsed value is never read. Elements of an \<open>items\<close> array are objects with the fields
  of \<open>item\<close>, an absent number being \<open>Undefined\<close>.
\<close>

datatype items_field = ItemsAbsent | ItemsNotArray | ItemsArray "item list"

record raw_metadata =
  raw_confidence :: jsnum
  raw_extractedEntities :: "string list option"

record RawTransactionData =
  raw_items :: items_field
  raw_customer :: "customer_info option"
  raw_total :: jsnum
  raw_currency :: "string option"
  raw_paymentTerms :: "string option"
  raw_dueDate :: "string option"
  raw_businessType :: "string option"
  raw_metadata :: "raw_metadata option"

datatype parsed = JNull | JObject RawTransactionData

text \<open>The callback of \<open>enhanced.items.map\<close>: \<open>total: item.total || (item.quantity * item.unitPrice)\<close>.\<close>

definition repair_item :: "item \<Rightarrow> item" where
  "repair_item it = it\<lparr>itemTotal := js_or (itemTotal it) (js_mul (quantity it) (unitPrice it))\<rparr>"

text \<open>\<open>enhanced.items.reduce((sum, item) => sum + item.total, 0)\<close>.\<close>

definition calculatedTotal :: "item list \<Rightarrow> jsnum" where
  "calculatedTotal its = foldl (\<lambda>sum it. js_add sum (itemTotal it)) (Num 0) its"

text \<open>
  The \<open>metadata\<close> literal spreads \<open>data.metadata\<close> after the two defaults, so a key that is
  present in the parsed metadata wins over the default, also when its value is falsy.
\<close>

definition enhance_metadata :: "raw_metadata option \<Rightarrow> metadata_info" where
  "enhance_metadata m =
     (case m of
        None \<Rightarrow> \<lparr>confidence = Num (85 / 100), extractedEntities = []\<rparr>
      | Some md \<Rightarrow>
          \<lparr>confidence = (if raw_confidence md = Undefined then Num (85 / 100) else raw_confidence md),
           extractedEntities = (case raw_extractedEntities md of None \<Rightarrow> [] | Some es \<Rightarrow> es)\<rparr>)"

text \<open>The object \<open>enhanced\<close> as first built, before the items are repaired.\<close>

definition enhanced_defaults :: "RawTransactionData \<Rightarrow> item list \<Rightarrow> string \<Rightarrow> TransactionData" where
  "enhanced_defaults data its lang = \<lparr>
     items = its,
     customer = (case raw_customer data of
                   None \<Rightarrow> Some \<lparr>customerName = None, contact = None\<rparr> | Some c \<Rightarrow> Some c),
     grandTotal = js_or (raw_total data) (Num 0),
     currency = str_or (raw_currency data) (getCurrencyForLanguage lang),
     paymentTerms = Some (str_or (raw_paymentTerms data) ''immediate''),
     dueDate = raw_dueDate data,
     businessType = Some (str_or (raw_businessType data) ''general''),
     language = lang,
     metadata = Some (enhance_metadata (raw_metadata data))\<rparr>"

text \<open>The last step: \<open>if (Math.abs(enhanced.total - calculatedTotal) > 0.01 && calculatedTotal > 0)\<close>.\<close>

definition reconcile_total :: "TransactionData \<Rightarrow> TransactionData" where
  "reconcile_total enhanced =
     (let calc = calculatedTotal (items enhanced) in
      if js_gt (js_abs (js_sub (grandTotal enhanced) calc)) (Num (1 / 100)) \<and> js_gt calc (Num 0)
      then enhanced\<lparr>grandTotal := calc\<rparr>
      else enhanced)"

text \<open>
  \<open>validateAndEnhanceTransactionData\<close>. Reading a property of \<open>null\<close> and calling
  \<open>map\<close> on a value that is not an array raise a \<open>TypeError\<close>.
\<close>

fun validateAndEnhanceTransactionData :: "parsed \<Rightarrow> string \<Rightarrow> error + TransactionData" where
  "validateAndEnhanceTransactionData JNull lang = Inl TypeError"
| "validateAndEnhanceTransactionData (JObject data) lang =
     (case raw_items data of
        ItemsNotArray \<Rightarrow> Inl TypeError
      | ItemsAbsent \<Rightarrow>
          Inr (reconcile_total ((enhanced_defaults data [] lang)\<lparr>items := map repair_item []\<rparr>))
      | ItemsArray its \<Rightarrow>
          Inr (reconcile_total ((enhanced_defaults data its lang)\<lparr>items := map repair_item its\<rparr>)))"

section \<open>AIService: retry with exponential backoff\<close>

text \<open>
  The provider is an oracle: \<open>create n\<close> is the outcome of the \<open>n\<close>-th call of
  \<open>openai.chat.completions.create\<close>, an error thrown or a response. The trace records
  every call made and every delay slept, in milliseconds, in order.
\<close>

datatype event = Call nat | Sleep nat

text \<open>
  The \<open>for\<close> loop of \<open>callOpenAIWithRetry\<close>, from \<open>attempt\<close> on. A loop that ends without
  returning gives \<open>undefined\<close>, here \<open>Inr None\<close>.
\<close>

function retry_loop ::
  "(nat \<Rightarrow> error + 'r) \<Rightarrow> nat \<Rightarrow> nat \<Rightarrow> event list \<Rightarrow> (error + 'r option) \<times> event list" where
  "retry_loop create maxRetries attempt tr =
     (if attempt \<le> maxRetries then
        (case create attempt of
           Inr response \<Rightarrow> (Inr (Some response), tr @ [Call attempt])
         | Inl err \<Rightarrow>
             if attempt = maxRetries then (Inl err, tr @ [Call attempt])
             else retry_loop create maxRetries (attempt + 1)
                    (tr @ [Call attempt, Sleep (2 ^ attempt * 1000)]))
      else (Inr None, tr))"
  by pat_completeness auto
termination
  by (relation "measure (\<lambda>(create, maxRetries, attempt, tr). maxRetries + 1 - attempt)") auto

declare retry_loop.simps [simp del]

definition callOpenAIWithRetry :: "(nat \<Rightarrow> error + 'r) \<Rightarrow> (error + 'r option) \<times> event list" where
  "callOpenAIWithRetry create = retry_loop create 3 1 []"

section \<open>AIService: processTransaction\<close>

text \<open>
  A response of the completion provider is reduced to
  \<open>response.choices[0]?.message?.content\<close>: \<open>NoChoices\<close> when \<open>choices\<close> itself is missing
  (indexing it raises a \<open>TypeError\<close>), otherwise the content, absent or a string.
  \<open>json_parse\<close> stands for \<open>JSON.parse\<close>: \<open>None\<close> when it raises a \<open>SyntaxError\<close>.
  \<open>apiKey\<close> says whether \<open>OPENAI_API_KEY\<close> is set. The provider's outcome may depend on the
  prompt, which is built from the transcript and the language.
\<close>

datatype response = NoChoices | Content "string option"

text \<open>The body of the outer \<open>try\<close> block, an exception being \<open>Inl\<close>.\<close>

definition processTransaction_try ::
  "bool \<Rightarrow> (string \<Rightarrow> string \<Rightarrow> nat \<Rightarrow> error + response) \<Rightarrow> (string \<Rightarrow> parsed option)
    \<Rightarrow> string \<Rightarrow> string \<Rightarrow> error + TransactionData" where
  "processTransaction_try apiKey create json_parse transcription lang =
     (if \<not> apiKey then Inr (getMockTransactionData lang)
      else
        (case fst (callOpenAIWithRetry (create transcription lang)) of
           Inl err \<Rightarrow> Inl err
         | Inr None \<Rightarrow> Inl TypeError
         | Inr (Some NoChoices) \<Rightarrow> Inl TypeError
         | Inr (Some (Content None)) \<Rightarrow> Inr (getMockTransactionData lang)
         | Inr (Some (Content (Some result))) \<Rightarrow>
             if result = [] then Inr (getMockTransactionData lang)
             else
               (case json_parse result of
                  None \<Rightarrow> Inr (getMockTransactionData lang)
                | Some parsedData \<Rightarrow>
                    (case validateAndEnhanceTransactionData parsedData lang of
                       Inl parseError \<Rightarrow> Inr (getMockTransactionData lang)
                     | Inr validatedData \<Rightarrow> Inr validatedData))))"

text \<open>\<open>processTransaction\<close>: the outer \<open>catch\<close> returns the mock record.\<close>

definition processTransaction ::
  "bool \<Rightarrow> (string \<Rightarrow> string \<Rightarrow> nat \<Rightarrow> error + response) \<Rightarrow> (string \<Rightarrow> parsed option)
    \<Rightarrow> string \<Rightarrow> string \<Rightarrow> error + TransactionData" where
  "processTransaction apiKey create json_parse transcription lang =
     (case processTransaction_try apiKey create json_parse transcription lang of
        Inl err \<Rightarrow> Inr (getMockTransactionData lang)
      | Inr data \<Rightarrow> Inr data)"

section \<open>Transcription\<close>

text \<open>
  The speech-to-text provider is an oracle \<open>whisper audio code\<close>: the text it returns for the
  audio and the language code, or the error raised on the way to it (a failure to write
  the temporary file, a network failure, a rejected input).
\<close>

definition mockTranscriptions :: "(string \<times> string) list" where
  "mockTranscriptions = [
     (''id'', ''Pak Budi servis motor, ganti oli sama kampas rem, total 350 ribu, bayar minggu depan''),
     (''th'', [CHR 0xE0, CHR 0xB8, CHR 0xA5, CHR 0xE0, CHR 0xB8, CHR 0xB9, CHR 0xE0, CHR 0xB8, CHR 0x81,
        CHR 0xE0, CHR 0xB8, CHR 0x84, CHR 0xE0, CHR 0xB9, CHR 0x89, CHR 0xE0, CHR 0xB8, CHR 0xB2,
        CHR 0xE0, CHR 0xB8, CHR 0x8B, CHR 0xE0, CHR 0xB8, CHR 0xB7, CHR 0xE0, CHR 0xB9, CHR 0x89,
        CHR 0xE0, CHR 0xB8, CHR 0xAD] @ phat_thai @ '' 3 ''
        @ [CHR 0xE0, CHR 0xB8, CHR 0x88, CHR 0xE0, CHR 0xB8, CHR 0xB2, CHR 0xE0, CHR 0xB8, CHR 0x99]
        @ '' '' @ som_tam @ '' 2 ''
        @ [CHR 0xE0, CHR 0xB8, CHR 0x88, CHR 0xE0, CHR 0xB8, CHR 0xB2, CHR 0xE0, CHR 0xB8, CHR 0x99]
        @ '' '' @ [CHR 0xE0, CHR 0xB8, CHR 0xA3, CHR 0xE0, CHR 0xB8, CHR 0xA7, CHR 0xE0, CHR 0xB8, CHR 0xA1]
        @ '' 250 '' @ [CHR 0xE0, CHR 0xB8, CHR 0x9A, CHR 0xE0, CHR 0xB8, CHR 0xB2, CHR 0xE0, CHR 0xB8, CHR 0x97]),
     (''vi'', ''Ch'' @ [CHR 0xE1, CHR 0xBB, CHR 0x8B] @ '' Lan may '' @ [CHR 0xC3, CHR 0xA1] @ ''o d''
        @ [CHR 0xC3, CHR 0xA0] @ ''i, '' @ [CHR 0xC4, CHR 0x91, CHR 0xE1, CHR 0xBA, CHR 0xB7] @ ''t c''
        @ [CHR 0xE1, CHR 0xBB, CHR 0x8D] @ ''c 500 ngh'' @ [CHR 0xC3, CHR 0xAC] @ ''n, c''
        @ [CHR 0xC3, CHR 0xB2] @ ''n l'' @ [CHR 0xE1, CHR 0xBA, CHR 0xA1] @ ''i 1 tri''
        @ [CHR 0xE1, CHR 0xBB, CHR 0x87] @ ''u khi xong''),
     (''tl'', ''Si Maria bumili ng 3 de lata, 2 pack ng kape, 150 pesos, hulugan''),
     (''en'', ''Customer bought 3 shirts and 2 pants, total 150 dollars, payment due next week'')]"

definition getMockTranscription :: "string \<Rightarrow> string" where
  "getMockTranscription lang =
     (case map_of mockTranscriptions lang of
        Some t \<Rightarrow> t
      | None \<Rightarrow> ''Customer bought 3 shirts and 2 pants, total 150 dollars, payment due next week'')"

definition languageMap :: "(string \<times> string) list" where
  "languageMap = [(''id'', ''id''), (''th'', ''th''), (''vi'', ''vi''), (''tl'', ''en''), (''en'', ''en'')]"

definition mapLanguageForWhisper :: "string \<Rightarrow> string" where
  "mapLanguageForWhisper lang = (case map_of languageMap lang of Some c \<Rightarrow> c | None \<Rightarrow> ''en'')"

text \<open>
  \<open>AIService.transcribeAudio\<close> (the service the server calls): the whole body is inside a
  \<open>try\<close> whose \<open>catch\<close> returns the mock transcript; an empty response is replaced by it too.
\<close>

definition AIService_transcribeAudio ::
  "bool \<Rightarrow> (nat list \<Rightarrow> string \<Rightarrow> error + string) \<Rightarrow> nat list \<Rightarrow> string \<Rightarrow> error + string" where
  "AIService_transcribeAudio apiKey whisper audioBuffer lang =
     (if \<not> apiKey then Inr (getMockTranscription lang)
      else
        (case whisper audioBuffer (mapLanguageForWhisper lang) of
           Inl err \<Rightarrow> Inr (getMockTranscription lang)
         | Inr response \<Rightarrow> Inr (if response = [] then getMockTranscription lang else response)))"

text \<open>
  \<open>SeaLionService.transcribeAudio\<close>: no credential check; the \<open>catch\<close> throws a new
  \<open>Error\<close> with a fixed message.
\<close>

definition SeaLionService_transcribeAudio ::
  "(nat list \<Rightarrow> string \<Rightarrow> error + string) \<Rightarrow> nat list \<Rightarrow> string \<Rightarrow> error + string" where
  "SeaLionService_transcribeAudio whisper audioBuffer lang =
     (case whisper audioBuffer (if lang = ''tl'' then ''en'' else lang) of
        Inl err \<Rightarrow> Inl (Error ''Failed to transcribe audio'')
      | Inr response \<Rightarrow> Inr response)"

section \<open>SeaLionService: the cache\<close>

text \<open>
  The cache is a JavaScript \<open>Map\<close> from key to entry: an association list with distinct
  keys in insertion order, \<open>set\<close> being \<open>AList.update\<close> and \<open>delete\<close> being
  \<open>AList.delete\<close>. Times are \<open>Date.now()\<close> readings in milliseconds. The field \<open>data\<close>
  of an entry is \<open>entryData\<close> here.
\<close>

record cache_entry =
  entryData :: TransactionData
  timestamp :: int

type_synonym cache = "(string \<times> cache_entry) list"

definition CACHE_DURATION :: int where
  "CACHE_DURATION = 5 * 60 * 1000"

definition getFromCache :: "cache \<Rightarrow> int \<Rightarrow> string \<Rightarrow> TransactionData option \<times> cache" where
  "getFromCache cache now key =
     (case map_of cache key of
        Some cached \<Rightarrow>
          if now - timestamp cached < CACHE_DURATION then (Some (entryData cached), cache)
          else (None, AList.delete key cache)
      | None \<Rightarrow> (None, cache))"

definition cleanupCache :: "cache \<Rightarrow> int \<Rightarrow> cache" where
  "cleanupCache cache now = filter (\<lambda>(key, v). \<not> now - timestamp v > CACHE_DURATION) cache"

text \<open>\<open>setCache\<close> reads the clock for the timestamp; the sweep reads it again (\<open>now'\<close>).\<close>

definition setCache :: "cache \<Rightarrow> int \<Rightarrow> int \<Rightarrow> string \<Rightarrow> TransactionData \<Rightarrow> cache" where
  "setCache cache now now' key d =
     (let cache' = AList.update key \<lparr>entryData = d, timestamp = now\<rparr> cache
      in if length cache' > 100 then cleanupCache cache' now' else cache')"

text \<open>
  \<open>processVoiceTransaction\<close> of the caching service. \<open>processWithSEALion\<close> always throws;
  \<open>fallbackToGPT\<close> is \<open>true\<close>, so \<open>processWithGPT4\<close> runs, whose errors propagate. The result
  lists the providers invoked. \<open>hashString\<close> is passed in: the function is the same for
  every hash. \<open>gpt\<close> is the outcome of the completion call, \<open>json_parse\<close> is \<open>JSON.parse\<close>
  cast to \<open>TransactionData\<close>.
\<close>

datatype provider = SEALion | GPT4

definition processWithGPT4 ::
  "(string \<Rightarrow> string \<Rightarrow> error + response) \<Rightarrow> (string \<Rightarrow> TransactionData option)
    \<Rightarrow> string \<Rightarrow> string \<Rightarrow> error + TransactionData" where
  "processWithGPT4 gpt json_parse transcription lang =
     (case gpt transcription lang of
        Inl err \<Rightarrow> Inl err
      | Inr NoChoices \<Rightarrow> Inl TypeError
      | Inr (Content None) \<Rightarrow> Inl (Error ''No response from AI service'')
      | Inr (Content (Some result)) \<Rightarrow>
          if result = [] then Inl (Error ''No response from AI service'')
          else (case json_parse result of
                  None \<Rightarrow> Inl (Error ''Invalid AI response format'')
                | Some d \<Rightarrow> Inr d))"

definition processVoiceTransaction ::
  "(string \<Rightarrow> string) \<Rightarrow> (string \<Rightarrow> string \<Rightarrow> error + response) \<Rightarrow> (string \<Rightarrow> TransactionData option)
    \<Rightarrow> cache \<Rightarrow> int \<Rightarrow> int \<Rightarrow> int \<Rightarrow> string \<Rightarrow> string
    \<Rightarrow> (error + TransactionData) \<times> cache \<times> provider list" where
  "processVoiceTransaction hashString gpt json_parse cache now now' now'' transcription lang =
     (let cacheKey = lang @ ''-'' @ hashString transcription in
      case getFromCache cache now cacheKey of
        (Some cached, cache1) \<Rightarrow> (Inr cached, cache1, [])
      | (None, cache1) \<Rightarrow>
          (case processWithGPT4 gpt json_parse transcription lang of
             Inl err \<Rightarrow> (Inl err, cache1, [SEALion, GPT4])
           | Inr result \<Rightarrow> (Inr result, setCache cache1 now' now'' cacheKey result, [SEALion, GPT4])))"

section \<open>InvoiceService\<close>

record business_info =
  businessName :: string
  address :: string
  phone :: string
  email :: string

definition templates :: "(string \<times> (string \<times> business_info) list) list" where
  "templates = [
     (''street food'', [
        (''th'', \<lparr>businessName = [CHR 0xE0, CHR 0xB8, CHR 0xA3, CHR 0xE0, CHR 0xB9, CHR 0x89, CHR 0xE0, CHR 0xB8, CHR 0xB2,
             CHR 0xE0, CHR 0xB8, CHR 0x99, CHR 0xE0, CHR 0xB8, CHR 0xAD, CHR 0xE0, CHR 0xB8, CHR 0xB2,
             CHR 0xE0, CHR 0xB8, CHR 0xAB, CHR 0xE0, CHR 0xB8, CHR 0xB2, CHR 0xE0, CHR 0xB8, CHR 0xA3,
             CHR 0xE0, CHR 0xB8, CHR 0xA3, CHR 0xE0, CHR 0xB8, CHR 0xB4, CHR 0xE0, CHR 0xB8, CHR 0xA1,
             CHR 0xE0, CHR 0xB8, CHR 0x97, CHR 0xE0, CHR 0xB8, CHR 0xB2, CHR 0xE0, CHR 0xB8, CHR 0x87],
           address = ''123 '' @ [CHR 0xE0, CHR 0xB8, CHR 0x96, CHR 0xE0, CHR 0xB8, CHR 0x99, CHR 0xE0, CHR 0xB8, CHR 0x99,
             CHR 0xE0, CHR 0xB8, CHR 0xAA, CHR 0xE0, CHR 0xB8, CHR 0xB8, CHR 0xE0, CHR 0xB8, CHR 0x82,
             CHR 0xE0, CHR 0xB8, CHR 0xB8, CHR 0xE0, CHR 0xB8, CHR 0xA1, CHR 0xE0, CHR 0xB8, CHR 0xA7,
             CHR 0xE0, CHR 0xB8, CHR 0xB4, CHR 0xE0, CHR 0xB8, CHR 0x97] @ '' ''
             @ [CHR 0xE0, CHR 0xB8, CHR 0x81, CHR 0xE0, CHR 0xB8, CHR 0xA3, CHR 0xE0, CHR 0xB8, CHR 0xB8,
             CHR 0xE0, CHR 0xB8, CHR 0x87, CHR 0xE0, CHR 0xB9, CHR 0x80, CHR 0xE0, CHR 0xB8, CHR 0x97,
             CHR 0xE0, CHR 0xB8, CHR 0x9E, CHR 0xE0, CHR 0xB8, CHR 0xAF],
           phone = ''+66 2 123 4567'',
           email = ''streetfood@example.com''\<rparr>),
        (''en'', \<lparr>businessName = ''Street Food Corner'',
           address = ''123 Main Street, Bangkok'',
           phone = ''+66 2 123 4567'',
           email = ''streetfood@example.com''\<rparr>)]),
     (''repair shop'', [
        (''id'', \<lparr>businessName = ''Bengkel Motor Pak Budi'',
           address = ''Jl. Raya No. 123, Jakarta'',
           phone = ''+62 21 123 4567'',
           email = ''bengkel@example.com''\<rparr>),
        (''en'', \<lparr>businessName = ''Budi Motor Repair'',
           address = ''123 Main Road, Jakarta'',
           phone = ''+62 21 123 4567'',
           email = ''repair@example.com''\<rparr>)]),
     (''sari-sari store'', [
        (''tl'', \<lparr>businessName = ''Sari-Sari Store ni Maria'',
           address = ''123 Barangay Street, Manila'',
           phone = ''+63 2 123 4567'',
           email = ''sarisari@example.com''\<rparr>),
        (''en'', \<lparr>businessName = ''Maria'' @ [CHR 0x27] @ ''s Sari-Sari Store'',
           address = ''123 Barangay Street, Manila'',
           phone = ''+63 2 123 4567'',
           email = ''store@example.com''\<rparr>)]),
     (''tailor'', [
        (''vi'', \<lparr>businessName = ''Ti'' @ [CHR 0xE1, CHR 0xBB, CHR 0x87] @ ''m May Ch''
             @ [CHR 0xE1, CHR 0xBB, CHR 0x8B] @ '' Lan'',
           address = ''123 '' @ [CHR 0xC4, CHR 0x90, CHR 0xC6, CHR 0xB0, CHR 0xE1, CHR 0xBB, CHR 0x9D] @ ''ng Nguy''
             @ [CHR 0xE1, CHR 0xBB, CHR 0x85] @ ''n Hu'' @ [CHR 0xE1, CHR 0xBB, CHR 0x87] @ '', TP.HCM'',
           phone = ''+84 28 123 4567'',
           email = ''tailor@example.com''\<rparr>),
        (''en'', \<lparr>businessName = ''Lan'' @ [CHR 0x27] @ ''s Tailor Shop'',
           address = ''123 Nguyen Hue Street, HCMC'',
           phone = ''+84 28 123 4567'',
           email = ''tailor@example.com''\<rparr>)])]"

definition generic_business :: business_info where
  "generic_business = \<lparr>businessName = ''VoiceFlow Business'',
     address = ''123 Business Street'',
     phone = ''+1 234 567 8900'',
     email = ''contact@voiceflow.ai''\<rparr>"

text \<open>
  \<open>getBusinessTemplate\<close>: \<open>if (businessTemplate && businessTemplate[language])\<close>, else the
  generic identity. The tables are modelled by their own keys; no inherited property of
  an object or function has a supported language code as its name.
\<close>

definition getBusinessTemplate :: "string \<Rightarrow> string \<Rightarrow> business_info" where
  "getBusinessTemplate btype lang =
     (case map_of templates btype of
        None \<Rightarrow> generic_business
      | Some businessTemplate \<Rightarrow>
          (case map_of businessTemplate lang of
             None \<Rightarrow> generic_business
           | Some b \<Rightarrow> b))"



subsection \<open>Calendar dates\<close>









subsection \<open>Due dates and invoice synthesis\<close>






section \<open>Auxiliary notions for the statements\<close>




text \<open>
  The calls of a trace, and the trace of a run that makes its last call at attempt \<open>k\<close>:
  every earlier attempt \<open>n\<close> is followed by a delay of \<open>2 ^ n\<close> seconds.
\<close>

fun is_call :: "event \<Rightarrow> bool" where
  "is_call (Call n) = True"
| "is_call (Sleep ms) = False"

definition trace_upto :: "nat \<Rightarrow> event list" where
  "trace_upto k = concat (map (\<lambda>n. [Call n, Sleep (2 ^ n * 1000)]) [1..<k]) @ [Call k]"

text \<open>Two provider behaviours: every call fails; the second call answers with text that is not JSON.\<close>

definition always_failing :: "nat \<Rightarrow> error + response" where
  "always_failing n =
     Inl (Error (if n = 1 then ''timeout 1'' else if n = 2 then ''timeout 2'' else ''timeout 3''))"

definition succeeds_second :: "nat \<Rightarrow> error + response" where
  "succeeds_second n =
     (if n = 2 then Inr (Content (Some ''not json'')) else Inl (Error ''rate limit''))"






text \<open>A cache with an entry stored at time 1000 and one stored at time 200000.\<close>

definition example_cache :: cache where
  "example_cache = [(''th-abc'', \<lparr>entryData = mock_th, timestamp = 1000\<rparr>),
                    (''en-xyz'', \<lparr>entryData = mock_en, timestamp = 200000\<rparr>)]"

text \<open>
  The business template resolution as the specification words it, with three levels:
  \<open>(businessType, language)\<close>, then \<open>(businessType, "en")\<close>, then the generic identity.
\<close>

definition getBusinessTemplate_spec :: "string \<Rightarrow> string \<Rightarrow> business_info" where
  "getBusinessTemplate_spec btype lang =
     (case map_of templates btype of
        None \<Rightarrow> generic_business
      | Some businessTemplate \<Rightarrow>
          (case map_of businessTemplate lang of
             Some b \<Rightarrow> b
           | None \<Rightarrow>
              (case map_of businessTemplate ''en'' of
                 Some b \<Rightarrow> b
               | None \<Rightarrow> generic_business)))"

text \<open>A business identity is complete when none of its four fields is empty.\<close>

definition complete_business :: "business_info \<Rightarrow> bool" where
  "complete_business b \<longleftrightarrow>
     businessName b \<noteq> [] \<and> address b \<noteq> [] \<and> phone b \<noteq> [] \<and> email b \<noteq> []"

definition street_food_en :: business_info where
  "street_food_en = \<lparr>businessName = ''Street Food Corner'',
           address = ''123 Main Street, Bangkok'',
           phone = ''+66 2 123 4567'',
           email = ''streetfood@example.com''\<rparr>"

text \<open>A transcription provider that cannot be reached.\<close>

definition unreachable :: "nat list \<Rightarrow> string \<Rightarrow> error + string" where
  "unreachable audio code = Inl (Error ''connect ECONNREFUSED'')"

section \<open>Properties\<close>

subsection \<open>Validation: line totals\<close>








subsection \<open>Validation: the grand total\<close>












subsection \<open>Retry with exponential backoff\<close>

lemma trace_upto_simps:
  "trace_upto 1 = [Call 1]"
  "trace_upto 2 = [Call 1, Sleep 2000, Call 2]"
  "trace_upto 3 = [Call 1, Sleep 2000, Call 2, Sleep 4000, Call 3]"
  by code_simp+

lemma callOpenAIWithRetry_unfold:
  "callOpenAIWithRetry create =
     (case create 1 of
        Inr r \<Rightarrow> (Inr (Some r), trace_upto 1)
      | Inl e1 \<Rightarrow>
         (case create 2 of
            Inr r \<Rightarrow> (Inr (Some r), trace_upto 2)
          | Inl e2 \<Rightarrow>
             (case create 3 of
                Inr r \<Rightarrow> (Inr (Some r), trace_upto 3)
              | Inl e3 \<Rightarrow> (Inl e3, trace_upto 3))))"
proof -
  have 3: "retry_loop create 3 3 tr =
     (case create 3 of Inr r \<Rightarrow> (Inr (Some r), tr @ [Call 3]) | Inl e \<Rightarrow> (Inl e, tr @ [Call 3]))" for tr
    by (subst retry_loop.simps) (simp del: One_nat_def split: sum.splits)
  have 2: "retry_loop create 3 2 tr =
     (case create 2 of Inr r \<Rightarrow> (Inr (Some r), tr @ [Call 2])
      | Inl e \<Rightarrow> retry_loop create 3 3 (tr @ [Call 2, Sleep 4000]))" for tr
    by (subst retry_loop.simps) (simp del: One_nat_def split: sum.splits)
  have 1: "retry_loop create 3 1 tr =
     (case create 1 of Inr r \<Rightarrow> (Inr (Some r), tr @ [Call 1])
      | Inl e \<Rightarrow> retry_loop create 3 2 (tr @ [Call 1, Sleep 2000]))" for tr
    by (subst retry_loop.simps) (simp del: One_nat_def split: sum.splits)
  show ?thesis
    by (cases "create 1"; cases "create 2"; cases "create 3")
       (simp_all only: callOpenAIWithRetry_def 1 2 3 trace_upto_simps sum.case append.simps)
qed

lemma interval_from_1: "{1..<1} = ({}::nat set)" "{1..<2} = {1::nat}" "{1..<3} = {1, 2::nat}"
  by auto

text \<open>
  C7. \<open>callOpenAIWithRetry\<close> makes at most 3 calls and never falls out of its loop.
  If attempt \<open>k\<close> (1, 2 or 3) is the first to succeed, its response is returned and the
  trace is that of \<open>k\<close> attempts: calls 1 to \<open>k\<close>, each failed attempt \<open>n\<close> followed by a
  delay of \<open>2 ^ n\<close> seconds, and nothing after the successful call. If all three attempts
  fail, the error of the third attempt is thrown, after the same delays (2 s and 4 s) and
  no delay after the third; and an error is thrown only in that case, so the errors of
  attempts 1 and 2 never reach the caller.
\<close>

theorem callOpenAIWithRetry_attempts:
  "(case callOpenAIWithRetry create of (res, tr) \<Rightarrow>
      length (filter is_call tr) \<le> 3
    \<and> res \<noteq> Inr None
    \<and> (\<forall>k\<in>{1, 2, 3}. \<forall>r. create k = Inr r \<and> (\<forall>j\<in>{1..<k}. isl (create j)) \<longrightarrow>
          res = Inr (Some r) \<and> tr = trace_upto k)
    \<and> (\<forall>e. isl (create 1) \<and> isl (create 2) \<and> create 3 = Inl e \<longrightarrow>
          res = Inl e \<and> tr = trace_upto 3)
    \<and> (\<forall>e. res = Inl e \<longrightarrow> isl (create 1) \<and> isl (create 2) \<and> create 3 = Inl e))"
  unfolding callOpenAIWithRetry_unfold
  by (cases "create 1"; cases "create 2"; cases "create 3")
     (simp_all del: One_nat_def add: trace_upto_simps interval_from_1)

theorem callOpenAIWithRetry_attempts_witness:
  "isl (always_failing 1) \<and> isl (always_failing 2) \<and> always_failing 3 = Inl (Error ''timeout 3'')
   \<and> callOpenAIWithRetry always_failing =
        (Inl (Error ''timeout 3''), [Call 1, Sleep 2000, Call 2, Sleep 4000, Call 3])
   \<and> isl (succeeds_second 1) \<and> succeeds_second 2 = Inr (Content (Some ''not json''))
   \<and> callOpenAIWithRetry succeeds_second =
        (Inr (Some (Content (Some ''not json''))), [Call 1, Sleep 2000, Call 2])"
  using callOpenAIWithRetry_attempts [of always_failing]
    callOpenAIWithRetry_attempts [of succeeds_second]
  by (simp add: callOpenAIWithRetry_unfold trace_upto_simps always_failing_def succeeds_second_def)

subsection \<open>Extraction never throws and falls back to the mock record\<close>

lemma all_attempts_fail:
  "isl (c 1) \<Longrightarrow> isl (c 2) \<Longrightarrow> isl (c 3) \<Longrightarrow> \<exists>e. fst (callOpenAIWithRetry c) = Inl e"
  unfolding callOpenAIWithRetry_unfold
  by (cases "c 1"; cases "c 2"; cases "c 3") simp_all

lemma processTransaction_total:
  "\<exists>d. processTransaction apiKey create json_parse transcription lang = Inr d"
  unfolding processTransaction_def by (simp split: sum.splits)

lemma processTransaction_cases:
  "processTransaction apiKey create json_parse transcription lang =
     (if \<not> apiKey then Inr (getMockTransactionData lang)
      else
        (case fst (callOpenAIWithRetry (create transcription lang)) of
           Inr (Some (Content (Some result))) \<Rightarrow>
             if result = [] then Inr (getMockTransactionData lang)
             else
               (case json_parse result of
                  None \<Rightarrow> Inr (getMockTransactionData lang)
                | Some parsedData \<Rightarrow>
                    (case validateAndEnhanceTransactionData parsedData lang of
                       Inl parseError \<Rightarrow> Inr (getMockTransactionData lang)
                     | Inr validatedData \<Rightarrow> Inr validatedData))
         | _ \<Rightarrow> Inr (getMockTransactionData lang)))"
  unfolding processTransaction_def processTransaction_try_def
  by (simp split: sum.splits option.splits response.splits)

text \<open>
  C2. \<open>processTransaction\<close> always returns a record and never throws, whatever the
  transcript, the language, the provider and the parser do. It returns the mock record
  of the language whenever the general-purpose model fails: when all three attempts
  raise; when the returned text is not valid JSON; when the parsed value makes validation
  raise; when the response has no choices, no content or empty content; and when no API
  key is configured. (\<open>processTransaction\<close> calls no regional model, so the failure of the
  general-purpose model alone is enough.) For \<open>th\<close> the mock record has the items
  phat thai 3 x 60 = 180 and som tam 2 x 35 = 70, total 250, currency \<open>THB\<close>.
\<close>

theorem processTransaction_falls_back_to_mock:
  "(\<exists>d. processTransaction apiKey create json_parse transcription lang = Inr d)
   \<and> (isl (create transcription lang 1) \<and> isl (create transcription lang 2)
        \<and> isl (create transcription lang 3) \<longrightarrow>
       processTransaction apiKey create json_parse transcription lang =
         Inr (getMockTransactionData lang))
   \<and> (\<forall>result. fst (callOpenAIWithRetry (create transcription lang)) = Inr (Some (Content (Some result)))
         \<and> json_parse result = None \<longrightarrow>
       processTransaction apiKey create json_parse transcription lang =
         Inr (getMockTransactionData lang))
   \<and> (\<forall>result p. fst (callOpenAIWithRetry (create transcription lang)) = Inr (Some (Content (Some result)))
         \<and> json_parse result = Some p \<and> isl (validateAndEnhanceTransactionData p lang) \<longrightarrow>
       processTransaction apiKey create json_parse transcription lang =
         Inr (getMockTransactionData lang))
   \<and> (fst (callOpenAIWithRetry (create transcription lang)) = Inr (Some NoChoices)
        \<or> fst (callOpenAIWithRetry (create transcription lang)) = Inr (Some (Content None))
        \<or> fst (callOpenAIWithRetry (create transcription lang)) = Inr (Some (Content (Some []))) \<longrightarrow>
       processTransaction apiKey create json_parse transcription lang =
         Inr (getMockTransactionData lang))
   \<and> (\<not> apiKey \<longrightarrow>
       processTransaction apiKey create json_parse transcription lang =
         Inr (getMockTransactionData lang))
   \<and> getMockTransactionData ''th'' = mock_th
   \<and> items mock_th =
        [\<lparr>name = phat_thai, quantity = Num 3, unitPrice = Num 60, itemTotal = Num 180\<rparr>,
         \<lparr>name = som_tam, quantity = Num 2, unitPrice = Num 35, itemTotal = Num 70\<rparr>]
   \<and> grandTotal mock_th = Num 250
   \<and> currency mock_th = ''THB''"
proof (intro conjI)
  show "\<exists>d. processTransaction apiKey create json_parse transcription lang = Inr d"
    by (rule processTransaction_total)
  show "isl (create transcription lang 1) \<and> isl (create transcription lang 2)
        \<and> isl (create transcription lang 3) \<longrightarrow>
       processTransaction apiKey create json_parse transcription lang =
         Inr (getMockTransactionData lang)"
    using all_attempts_fail [of "create transcription lang"]
    by (auto simp: processTransaction_cases)
  show "getMockTransactionData ''th'' = mock_th"
    by (simp add: getMockTransactionData_def mockData_def)
  show "items mock_th =
        [\<lparr>name = phat_thai, quantity = Num 3, unitPrice = Num 60, itemTotal = Num 180\<rparr>,
         \<lparr>name = som_tam, quantity = Num 2, unitPrice = Num 35, itemTotal = Num 70\<rparr>]"
    by (simp add: mock_th_def)
  show "grandTotal mock_th = Num 250"
    by (simp add: mock_th_def)
  show "currency mock_th = ''THB''"
    by (simp add: mock_th_def)
qed (auto simp: processTransaction_cases isl_def)

theorem processTransaction_falls_back_to_mock_witness:
  "isl (always_failing 1) \<and> isl (always_failing 2) \<and> isl (always_failing 3)
   \<and> processTransaction True (\<lambda>t l. always_failing) (\<lambda>s. None) ''hello'' ''th'' = Inr mock_th
   \<and> fst (callOpenAIWithRetry succeeds_second) = Inr (Some (Content (Some ''not json'')))
   \<and> processTransaction True (\<lambda>t l. succeeds_second) (\<lambda>s. None) ''hello'' ''th'' = Inr mock_th
   \<and> isl (validateAndEnhanceTransactionData JNull ''th'')
   \<and> processTransaction True (\<lambda>t l. succeeds_second) (\<lambda>s. Some JNull) ''hello'' ''th'' = Inr mock_th
   \<and> processTransaction False (\<lambda>t l. succeeds_second) (\<lambda>s. Some JNull) ''hello'' ''th'' = Inr mock_th"
  using processTransaction_falls_back_to_mock
          [where apiKey = True and create = "\<lambda>t l. always_failing" and json_parse = "\<lambda>s. None"
             and transcription = "''hello''" and lang = "''th''"]
        processTransaction_falls_back_to_mock
          [where apiKey = True and create = "\<lambda>t l. succeeds_second" and json_parse = "\<lambda>s. None"
             and transcription = "''hello''" and lang = "''th''"]
        processTransaction_falls_back_to_mock
          [where apiKey = True and create = "\<lambda>t l. succeeds_second" and json_parse = "\<lambda>s. Some JNull"
             and transcription = "''hello''" and lang = "''th''"]
        processTransaction_falls_back_to_mock
          [where apiKey = False and create = "\<lambda>t l. succeeds_second" and json_parse = "\<lambda>s. Some JNull"
             and transcription = "''hello''" and lang = "''th''"]
  by (simp add: callOpenAIWithRetry_unfold always_failing_def succeeds_second_def)

subsection \<open>The mock fallback for Vietnamese and Tagalog\<close>

text \<open>
  C9. For the supported languages \<open>vi\<close> and \<open>tl\<close> the mock table has no entry, so
  \<open>getMockTransactionData\<close> returns the English record: currency \<open>USD\<close>, language
  \<open>en\<close>, the retail items Shirts and Pants. The record is not in the currency that
  \<open>getCurrencyForLanguage\<close> gives for these languages (\<open>VND\<close>, \<open>PHP\<close>), and the table's
  only keys are \<open>id\<close>, \<open>th\<close> and \<open>en\<close>.
\<close>

theorem mock_vi_tl_is_english:
  "getMockTransactionData ''vi'' = mock_en
   \<and> getMockTransactionData ''tl'' = mock_en
   \<and> currency (getMockTransactionData ''vi'') = ''USD''
   \<and> currency (getMockTransactionData ''tl'') = ''USD''
   \<and> language (getMockTransactionData ''vi'') = ''en''
   \<and> language (getMockTransactionData ''tl'') = ''en''
   \<and> businessType (getMockTransactionData ''vi'') = Some ''retail''
   \<and> businessType (getMockTransactionData ''tl'') = Some ''retail''
   \<and> map name (items (getMockTransactionData ''vi'')) = [''Shirts'', ''Pants'']
   \<and> map name (items (getMockTransactionData ''tl'')) = [''Shirts'', ''Pants'']
   \<and> getCurrencyForLanguage ''vi'' = ''VND''
   \<and> getCurrencyForLanguage ''tl'' = ''PHP''
   \<and> map fst mockData = [''id'', ''th'', ''en'']"
  by (simp add: getMockTransactionData_def mockData_def mock_en_def
      getCurrencyForLanguage_def currencyMap_def)

subsection \<open>Business template resolution\<close>

text \<open>
  C1, as stated, fails: the code has no \<open>(businessType, "en")\<close> level. For the business
  type \<open>street food\<close> and the supported language \<open>vi\<close> the table has no \<open>vi\<close> entry but
  has an \<open>en\<close> entry (Street Food Corner), which the three-level resolution returns; the
  code returns the generic identity.
\<close>

theorem business_template_no_english_fallback:
  "getBusinessTemplate ''street food'' ''en'' = street_food_en
   \<and> getBusinessTemplate_spec ''street food'' ''vi'' = street_food_en
   \<and> getBusinessTemplate ''street food'' ''vi'' = generic_business
   \<and> generic_business \<noteq> street_food_en
   \<and> getBusinessTemplate ''street food'' ''vi'' \<noteq> getBusinessTemplate_spec ''street food'' ''vi''"
  by (simp add: getBusinessTemplate_def getBusinessTemplate_spec_def templates_def
      generic_business_def street_food_en_def)

lemma templates_complete:
  "\<forall>(btype, tbl) \<in> set templates. \<forall>(lang, b) \<in> set tbl. complete_business b"
  by (simp add: templates_def complete_business_def)

lemma generic_complete: "complete_business generic_business"
  by (simp add: generic_business_def complete_business_def)

lemma getBusinessTemplate_complete: "complete_business (getBusinessTemplate btype lang)"
proof (cases "map_of templates btype")
  case None
  then show ?thesis by (simp add: getBusinessTemplate_def generic_complete)
next
  case (Some tbl)
  then have t: "(btype, tbl) \<in> set templates" by (rule map_of_SomeD)
  show ?thesis
  proof (cases "map_of tbl lang")
    case None
    with Some show ?thesis by (simp add: getBusinessTemplate_def generic_complete)
  next
    case (Some b)
    then have "(lang, b) \<in> set tbl" by (rule map_of_SomeD)
    with t templates_complete have "complete_business b" by blast
    with Some \<open>map_of templates btype = Some tbl\<close> show ?thesis
      by (simp add: getBusinessTemplate_def)
  qed
qed

text \<open>
  C1, amended. For every business type and every supported language the resolution has
  two levels: the \<open>(businessType, language)\<close> entry when the table has one, and otherwise
  (unknown business type, or no entry for the language) the fixed generic identity. The
  result is always a complete identity: name, address, phone and email are all there.
\<close>

theorem business_template_resolution:
  assumes "lang \<in> set supportedLanguages"
  shows "complete_business (getBusinessTemplate btype lang)
       \<and> (\<forall>tbl b. map_of templates btype = Some tbl \<and> map_of tbl lang = Some b \<longrightarrow>
             getBusinessTemplate btype lang = b)
       \<and> (\<forall>tbl. map_of templates btype = Some tbl \<and> map_of tbl lang = None \<longrightarrow>
             getBusinessTemplate btype lang = generic_business)
       \<and> (map_of templates btype = None \<longrightarrow> getBusinessTemplate btype lang = generic_business)"
  by (simp add: getBusinessTemplate_complete) (auto simp: getBusinessTemplate_def)

theorem business_template_resolution_witness:
  "''vi'' \<in> set supportedLanguages
   \<and> complete_business (getBusinessTemplate ''street food'' ''vi'')
   \<and> getBusinessTemplate ''street food'' ''vi'' = generic_business
   \<and> getBusinessTemplate ''street food'' ''en'' = street_food_en
   \<and> map_of templates ''bakery'' = None
   \<and> getBusinessTemplate ''bakery'' ''vi'' = generic_business"
  using business_template_resolution [where lang = "''vi''" and btype = "''street food''"]
    business_template_resolution [where lang = "''en''" and btype = "''street food''"]
    business_template_resolution [where lang = "''vi''" and btype = "''bakery''"]
  by (simp add: supportedLanguages_def templates_def street_food_en_def generic_complete)

subsection \<open>Transcription failures\<close>

text \<open>
  C3, as stated, fails for the service the server calls: with a credential configured
  and the provider unreachable, \<open>AIService.transcribeAudio\<close> returns normally, with the
  sample transcript of the language as a substitute result.
\<close>

theorem AIService_transcribeAudio_substitutes:
  "unreachable [82, 73, 70, 70] (mapLanguageForWhisper ''en'') = Inl (Error ''connect ECONNREFUSED'')
   \<and> AIService_transcribeAudio True unreachable [82, 73, 70, 70] ''en'' =
       Inr ''Customer bought 3 shirts and 2 pants, total 150 dollars, payment due next week''
   \<and> \<not> isl (AIService_transcribeAudio True unreachable [82, 73, 70, 70] ''en'')"
  by (simp add: AIService_transcribeAudio_def unreachable_def getMockTranscription_def
      mockTranscriptions_def)

text \<open>
  C3, amended. When the provider is unreachable or rejects the input,
  \<open>SeaLionService.transcribeAudio\<close> fails with the error \<open>Failed to transcribe audio\<close>,
  which propagates to its caller; \<open>AIService.transcribeAudio\<close>, with a credential
  configured, absorbs the failure and returns the sample transcript of the language, and
  it returns a transcript in every case.
\<close>

theorem transcribeAudio_provider_failure:
  "(\<forall>e. whisper audioBuffer (if lang = ''tl'' then ''en'' else lang) = Inl e \<longrightarrow>
      SeaLionService_transcribeAudio whisper audioBuffer lang = Inl (Error ''Failed to transcribe audio''))
   \<and> (\<forall>e. apiKey \<and> whisper audioBuffer (mapLanguageForWhisper lang) = Inl e \<longrightarrow>
      AIService_transcribeAudio apiKey whisper audioBuffer lang = Inr (getMockTranscription lang))
   \<and> (\<exists>t. AIService_transcribeAudio apiKey whisper audioBuffer lang = Inr t)"
  by (auto simp: SeaLionService_transcribeAudio_def AIService_transcribeAudio_def split: sum.splits)

theorem transcribeAudio_provider_failure_witness:
  "unreachable [82, 73, 70, 70] ''th'' = Inl (Error ''connect ECONNREFUSED'')
   \<and> mapLanguageForWhisper ''th'' = ''th''
   \<and> SeaLionService_transcribeAudio unreachable [82, 73, 70, 70] ''th'' =
        Inl (Error ''Failed to transcribe audio'')
   \<and> AIService_transcribeAudio True unreachable [82, 73, 70, 70] ''th'' =
        Inr (getMockTranscription ''th'')"
  using transcribeAudio_provider_failure
    [where whisper = unreachable and audioBuffer = "[82, 73, 70, 70]" and lang = "''th''" and apiKey = True]
  by (simp add: unreachable_def mapLanguageForWhisper_def languageMap_def)

subsection \<open>Due-date resolution\<close>











subsection \<open>Invoice synthesis copies the transaction\<close>


subsection \<open>Cache lookups and the TTL\<close>

lemma getFromCache_hit_iff:
  "fst (getFromCache cache now key) = Some d \<longleftrightarrow>
     (\<exists>e. map_of cache key = Some e \<and> entryData e = d \<and> now - timestamp e < CACHE_DURATION)"
  by (auto simp: getFromCache_def split: option.splits)

text \<open>
  C8. The TTL is 300000 ms. \<open>getFromCache\<close> returns stored data exactly when the key has
  an entry whose age \<open>now - timestamp\<close> is below the TTL, and then leaves the cache as it
  is. When the entry's age has reached the TTL the call reports a miss and the entry is
  deleted (the other keys keep their entries); a key with no entry is a miss too. So
  \<open>processVoiceTransaction\<close> on an expired entry goes through the provider chain (the
  regional model, then the general-purpose model) and returns what that gives, while on
  a fresh entry it returns the stored data and calls no provider.
\<close>

theorem getFromCache_ttl:
  "CACHE_DURATION = 300000
   \<and> (fst (getFromCache cache now key) = Some d \<longleftrightarrow>
        (\<exists>e. map_of cache key = Some e \<and> entryData e = d \<and> now - timestamp e < CACHE_DURATION))
   \<and> (\<forall>e. map_of cache key = Some e \<and> now - timestamp e < CACHE_DURATION \<longrightarrow>
        getFromCache cache now key = (Some (entryData e), cache))
   \<and> (\<forall>e. map_of cache key = Some e \<and> CACHE_DURATION \<le> now - timestamp e \<longrightarrow>
        getFromCache cache now key = (None, AList.delete key cache)
        \<and> map_of (AList.delete key cache) key = None
        \<and> (\<forall>k. k \<noteq> key \<longrightarrow> map_of (AList.delete key cache) k = map_of cache k))
   \<and> (map_of cache key = None \<longrightarrow> getFromCache cache now key = (None, cache))
   \<and> (\<forall>e. map_of cache (lang @ ''-'' @ hashString transcription) = Some e
          \<and> CACHE_DURATION \<le> now - timestamp e \<longrightarrow>
        snd (snd (processVoiceTransaction hashString gpt json_parse cache now now' now''
                    transcription lang)) = [SEALion, GPT4]
        \<and> fst (processVoiceTransaction hashString gpt json_parse cache now now' now''
                    transcription lang) = processWithGPT4 gpt json_parse transcription lang)
   \<and> (\<forall>e. map_of cache (lang @ ''-'' @ hashString transcription) = Some e
          \<and> now - timestamp e < CACHE_DURATION \<longrightarrow>
        processVoiceTransaction hashString gpt json_parse cache now now' now'' transcription lang
          = (Inr (entryData e), cache, []))"
proof (intro conjI)
  show "CACHE_DURATION = 300000" by (simp add: CACHE_DURATION_def)
  show "fst (getFromCache cache now key) = Some d \<longleftrightarrow>
        (\<exists>e. map_of cache key = Some e \<and> entryData e = d \<and> now - timestamp e < CACHE_DURATION)"
    by (rule getFromCache_hit_iff)
  show "\<forall>e. map_of cache key = Some e \<and> now - timestamp e < CACHE_DURATION \<longrightarrow>
        getFromCache cache now key = (Some (entryData e), cache)"
    by (simp add: getFromCache_def)
  show "\<forall>e. map_of cache key = Some e \<and> CACHE_DURATION \<le> now - timestamp e \<longrightarrow>
        getFromCache cache now key = (None, AList.delete key cache)
        \<and> map_of (AList.delete key cache) key = None
        \<and> (\<forall>k. k \<noteq> key \<longrightarrow> map_of (AList.delete key cache) k = map_of cache k)"
    by (simp add: getFromCache_def AList.delete_conv')
  show "map_of cache key = None \<longrightarrow> getFromCache cache now key = (None, cache)"
    by (simp add: getFromCache_def)
  show "\<forall>e. map_of cache (lang @ ''-'' @ hashString transcription) = Some e
          \<and> CACHE_DURATION \<le> now - timestamp e \<longrightarrow>
        snd (snd (processVoiceTransaction hashString gpt json_parse cache now now' now''
                    transcription lang)) = [SEALion, GPT4]
        \<and> fst (processVoiceTransaction hashString gpt json_parse cache now now' now''
                    transcription lang) = processWithGPT4 gpt json_parse transcription lang"
    by (simp add: processVoiceTransaction_def getFromCache_def Let_def split: sum.splits)
  show "\<forall>e. map_of cache (lang @ ''-'' @ hashString transcription) = Some e
          \<and> now - timestamp e < CACHE_DURATION \<longrightarrow>
        processVoiceTransaction hashString gpt json_parse cache now now' now'' transcription lang
          = (Inr (entryData e), cache, [])"
    by (simp add: processVoiceTransaction_def getFromCache_def Let_def)
qed

theorem getFromCache_ttl_witness:
  "map_of example_cache ''th-abc'' = Some \<lparr>entryData = mock_th, timestamp = 1000\<rparr>
   \<and> getFromCache example_cache 300999 ''th-abc'' = (Some mock_th, example_cache)
   \<and> getFromCache example_cache 301000 ''th-abc''
        = (None, [(''en-xyz'', \<lparr>entryData = mock_en, timestamp = 200000\<rparr>)])
   \<and> getFromCache example_cache 301000 ''en-xyz'' = (Some mock_en, example_cache)
   \<and> getFromCache example_cache 301000 ''vi-000'' = (None, example_cache)
   \<and> snd (snd (processVoiceTransaction (\<lambda>s. ''abc'') (\<lambda>t l. Inl (Error ''down'')) (\<lambda>s. None)
        example_cache 301000 301001 301002 ''hello'' ''th'')) = [SEALion, GPT4]
   \<and> processVoiceTransaction (\<lambda>s. ''abc'') (\<lambda>t l. Inl (Error ''down'')) (\<lambda>s. None)
        example_cache 300999 301001 301002 ''hello'' ''th'' = (Inr mock_th, example_cache, [])"
  using getFromCache_ttl [where cache = example_cache and now = 300999 and key = "''th-abc''"
      and d = mock_th and lang = "''th''" and hashString = "\<lambda>s. ''abc''" and transcription = "''hello''"
      and gpt = "\<lambda>t l. Inl (Error ''down'')" and json_parse = "\<lambda>s. None"
      and now' = 301001 and now'' = 301002]
    getFromCache_ttl [where cache = example_cache and now = 301000 and key = "''th-abc''"
      and d = mock_th and lang = "''th''" and hashString = "\<lambda>s. ''abc''" and transcription = "''hello''"
      and gpt = "\<lambda>t l. Inl (Error ''down'')" and json_parse = "\<lambda>s. None"
      and now' = 301001 and now'' = 301002]
    getFromCache_ttl [where cache = example_cache and now = 301000 and key = "''en-xyz''" and d = mock_en]
    getFromCache_ttl [where cache = example_cache and now = 301000 and key = "''vi-000''" and d = mock_en]
  by (simp add: example_cache_def AList.delete_eq)

end
